theory Spec2Isabelle
  imports Main "HOL-Library.AList"
begin

section \<open>Values, attribute dictionaries and exceptions\<close>

text \<open>
  The notebook is Python. Values that the formatter and the configuration cells handle
  are JSON-like: \<open>None\<close>, booleans, integers, strings, lists and dictionaries. A
  dictionary is an association list, because Python dictionaries keep insertion order
  and two of the properties below are about that order.
\<close>

datatype pyval =
    PNone
  | PBool bool
  | PInt int
  | PStr string
  | PList "pyval list"
  | PDict "(string \<times> pyval) list"

text \<open>Every exception the modelled code can raise, or let through from a library.\<close>

datatype exn =
    AttributeError
  | TypeError
  | External string

text \<open>
  An object is its attribute dictionary. Reading an attribute that the object does not
  have raises \<open>AttributeError\<close>.
\<close>

type_synonym 'v pyobj = "(string \<times> 'v) list"

definition getattr :: "'v pyobj \<Rightarrow> string \<Rightarrow> exn + 'v" where
  "getattr obj a = (case map_of obj a of None \<Rightarrow> Inl AttributeError | Some v \<Rightarrow> Inr v)"

definition bind_exn :: "exn + 'a \<Rightarrow> ('a \<Rightarrow> exn + 'b) \<Rightarrow> exn + 'b" where
  "bind_exn m f = (case m of Inl e \<Rightarrow> Inl e | Inr x \<Rightarrow> f x)"

section \<open>The tool descriptor formatter\<close>

text \<open>
  Modelled from the spec: the type of the tool object, which the external tool-connection
  library declares and the notebook only reads. A tool has a name, a description, optional
  annotations and an input schema (a dictionary from strings to arbitrary values). The
  annotations, when present, are an object of their own; it is kept as an attribute
  dictionary so that "the object has the attribute, holding \<open>None\<close>" and "the object has
  no such attribute" stay two different things.
\<close>

record Tool =
  name :: string
  description :: pyval
  annotations :: "pyval pyobj option"
  inputSchema :: "(string \<times> pyval) list"

text \<open>
  \<open>if tool.annotations\<close>: \<open>None\<close> is false; an object that defines neither
  \<open>__bool__\<close> nor \<open>__len__\<close> is true.
\<close>

definition truthy :: "'v pyobj option \<Rightarrow> bool" where
  "truthy x = (case x of None \<Rightarrow> False | Some _ \<Rightarrow> True)"

text \<open>\<open>d.get(k, default)\<close> on a dictionary.\<close>

definition dict_get :: "(string \<times> pyval) list \<Rightarrow> string \<Rightarrow> pyval \<Rightarrow> pyval" where
  "dict_get d k dflt = (case map_of d k of None \<Rightarrow> dflt | Some v \<Rightarrow> v)"

text \<open>
  \<open>list(x.keys())\<close>: the keys of a dictionary in insertion order. None of the other
  values has a \<open>keys\<close> attribute.
\<close>

fun keys :: "pyval \<Rightarrow> exn + string list" where
  "keys (PDict d) = Inr (map fst d)"
| "keys _ = Inl AttributeError"

text \<open>
  \<open>tool.annotations.<field> if tool.annotations else None\<close>, the conditional
  expression used three times by the formatter.
\<close>

definition annotation_or_None :: "Tool \<Rightarrow> string \<Rightarrow> exn + pyval" where
  "annotation_or_None tool field =
     (if truthy (annotations tool)
      then (case annotations tool of Some a \<Rightarrow> getattr a field | None \<Rightarrow> Inl AttributeError)
      else Inr PNone)"

text \<open>
  The formatter. The dictionary display is evaluated entry by entry in the written order,
  so the first failing entry decides the exception.
\<close>

definition tool_to_dict :: "Tool \<Rightarrow> exn + (string \<times> pyval) list" where
  "tool_to_dict tool =
     bind_exn (annotation_or_None tool ''title'') (\<lambda>title.
     bind_exn (annotation_or_None tool ''readOnlyHint'') (\<lambda>readOnly.
     bind_exn (annotation_or_None tool ''destructiveHint'') (\<lambda>destructive.
     bind_exn (keys (dict_get (inputSchema tool) ''properties'' (PDict []))) (\<lambda>inputs.
       Inr [(''name'', PStr (name tool)),
            (''title'', title),
            (''description'', description tool),
            (''readOnly'', readOnly),
            (''destructive'', destructive),
            (''inputs'', PList (map PStr inputs))]))))"

text \<open>
  Well-formed tool objects. The library declares \<open>title\<close>, \<open>readOnlyHint\<close> and
  \<open>destructiveHint\<close> as optional fields with default \<open>None\<close>, so an annotations object
  always carries the three attributes; and the \<open>properties\<close> entry of an input schema,
  when there is one, is a mapping.
\<close>

definition wf_annotations :: "pyval pyobj \<Rightarrow> bool" where
  "wf_annotations a =
     (map_of a ''title'' \<noteq> None \<and> map_of a ''readOnlyHint'' \<noteq> None
      \<and> map_of a ''destructiveHint'' \<noteq> None)"

fun is_dict :: "pyval \<Rightarrow> bool" where
  "is_dict (PDict _) = True"
| "is_dict _ = False"

definition wf_schema :: "(string \<times> pyval) list \<Rightarrow> bool" where
  "wf_schema s = (case map_of s ''properties'' of None \<Rightarrow> True | Some v \<Rightarrow> is_dict v)"

definition wf_tool :: "Tool \<Rightarrow> bool" where
  "wf_tool t =
     ((case annotations t of None \<Rightarrow> True | Some a \<Rightarrow> wf_annotations a)
      \<and> wf_schema (inputSchema t))"

section \<open>The quiet agent wrapper\<close>

text \<open>
  The agent is a mutable object whose \<open>args\<close> attribute refers to another mutable object
  (the namespace), so objects live in a store. An address is an index into the store and
  a new object is appended, which makes its address different from every address in use.
\<close>

type_synonym addr = nat

datatype aval =
    ANone
  | ABool bool
  | AStr string
  | ARef addr

type_synonym heap = "aval pyobj list"

definition alloc :: "aval pyobj \<Rightarrow> heap \<Rightarrow> addr \<times> heap" where
  "alloc obj h = (length h, h @ [obj])"

definition load_attr :: "heap \<Rightarrow> addr \<Rightarrow> string \<Rightarrow> exn + aval" where
  "load_attr h a k = (if a < length h then getattr (h ! a) k else Inl AttributeError)"

text \<open>
  An attribute assignment. An address outside the store is never held by a running
  program; the store is then left as it is.
\<close>

definition store_attr :: "addr \<Rightarrow> string \<Rightarrow> aval \<Rightarrow> heap \<Rightarrow> heap" where
  "store_attr a k v h = (if a < length h then h[a := AList.update k v (h ! a)] else h)"

text \<open>
  The constructor of the base type is external: it is a parameter, taking the agent's name,
  the instance and the store, and returning the store it leaves or the exception it raises.
\<close>

type_synonym base_ctor = "string \<Rightarrow> addr \<Rightarrow> heap \<Rightarrow> exn + heap"

text \<open>The three statements of \<open>NotebookAgent.__init__\<close>, in the order written.\<close>

datatype stmt =
    Super_init string
  | Assign_args_Namespace
  | Assign_args_quiet bool

definition NotebookAgent_init_body :: "stmt list" where
  "NotebookAgent_init_body =
     [Super_init ''NotebookAgent'', Assign_args_Namespace, Assign_args_quiet True]"

fun exec_stmt :: "base_ctor \<Rightarrow> addr \<Rightarrow> stmt \<Rightarrow> heap \<Rightarrow> exn + heap" where
  "exec_stmt base self (Super_init nm) h = base nm self h"
| "exec_stmt base self Assign_args_Namespace h =
     (case alloc [] h of (ns, h') \<Rightarrow> Inr (store_attr self ''args'' (ARef ns) h'))"
| "exec_stmt base self (Assign_args_quiet b) h =
     (case load_attr h self ''args'' of
        Inl e \<Rightarrow> Inl e
      | Inr (ARef ns) \<Rightarrow> Inr (store_attr ns ''quiet'' (ABool b) h)
      | Inr _ \<Rightarrow> Inl AttributeError)"

fun exec_stmts :: "base_ctor \<Rightarrow> addr \<Rightarrow> stmt list \<Rightarrow> heap \<Rightarrow> exn + heap" where
  "exec_stmts base self [] h = Inr h"
| "exec_stmts base self (s # ss) h =
     (case exec_stmt base self s h of Inl e \<Rightarrow> Inl e | Inr h' \<Rightarrow> exec_stmts base self ss h')"

text \<open>The statements that get executed, each with the store it starts from.\<close>

fun trace :: "base_ctor \<Rightarrow> addr \<Rightarrow> stmt list \<Rightarrow> heap \<Rightarrow> (stmt \<times> heap) list" where
  "trace base self [] h = []"
| "trace base self (s # ss) h =
     (s, h) # (case exec_stmt base self s h of Inl e \<Rightarrow> [] | Inr h' \<Rightarrow> trace base self ss h')"

definition NotebookAgent_init :: "base_ctor \<Rightarrow> addr \<Rightarrow> heap \<Rightarrow> exn + heap" where
  "NotebookAgent_init base self h = exec_stmts base self NotebookAgent_init_body h"

text \<open>
  The call \<open>NotebookAgent(...)\<close>: the instance is allocated without attributes, then
  \<open>__init__\<close> runs on it. \<open>__init__\<close> takes no argument besides the instance, so a call
  with arguments raises \<open>TypeError\<close>.
\<close>

definition NotebookAgent :: "base_ctor \<Rightarrow> aval list \<Rightarrow> heap \<Rightarrow> exn + (addr \<times> heap)" where
  "NotebookAgent base call_args h =
     (case alloc [] h of (self, h0) \<Rightarrow>
        if call_args \<noteq> [] then Inl TypeError
        else (case NotebookAgent_init base self h0 of
                Inl e \<Rightarrow> Inl e
              | Inr h' \<Rightarrow> Inr (self, h')))"

text \<open>The quiet flag of an instance: \<open>self.args.quiet\<close> is \<open>True\<close>.\<close>

definition quiet_flag :: "heap \<Rightarrow> addr \<Rightarrow> bool" where
  "quiet_flag h self =
     (case load_attr h self ''args'' of
        Inr (ARef ns) \<Rightarrow> load_attr h ns ''quiet'' = Inr (ABool True)
      | _ \<Rightarrow> False)"

fun is_Super_init :: "stmt \<Rightarrow> bool" where
  "is_Super_init (Super_init _) = True"
| "is_Super_init _ = False"

text \<open>
  "The quiet flag is true before any base-constructor behaviour": every call of the base
  constructor that the wrapper's constructor makes starts from a store in which the
  instance's quiet flag is true.
\<close>

definition quiet_before_base :: "base_ctor \<Rightarrow> addr \<Rightarrow> heap \<Rightarrow> bool" where
  "quiet_before_base base self h =
     list_all (\<lambda>sh. is_Super_init (fst sh) \<longrightarrow> quiet_flag (snd sh) self)
       (trace base self NotebookAgent_init_body h)"

text \<open>
  A stand-in for the external base constructor, used to run the wrapper on a concrete
  input: it stores the name, and an argument namespace of its own with \<open>quiet\<close> false
  and one more attribute.
\<close>

definition demo_base :: base_ctor where
  "demo_base nm self h =
     (case alloc [(''quiet'', ABool False), (''model'', AStr ''gpt-4o'')] h of (ns, h1) \<Rightarrow>
        Inr (store_attr self ''args'' (ARef ns) (store_attr self ''name'' (AStr nm) h1)))"

section \<open>Process environment and the credential loader\<close>

text \<open>\<open>os.environ\<close>, and \<open>os.getenv(k)\<close>, which gives \<open>None\<close> for a variable not set.\<close>

type_synonym environ = "(string \<times> string) list"

definition os_getenv :: "environ \<Rightarrow> string \<Rightarrow> pyval" where
  "os_getenv env k = (case map_of env k of None \<Rightarrow> PNone | Some v \<Rightarrow> PStr v)"

text \<open>
  Modelled from the spec: \<open>load_dotenv\<close>, a function of an external package that the
  notebook calls without arguments. It "reads a local file of KEY=VALUE lines (comments
  and blank lines ignored) and injects each pair into process-wide environment state only
  if not already present", and is a no-op when the file is absent. The file is given as
  its lines, \<open>None\<close> when there is no file.
\<close>

definition parse_line :: "string \<Rightarrow> (string \<times> string) option" where
  "parse_line l =
     (let t = dropWhile (\<lambda>c. c = CHR '' '') l in
      if t = [] \<or> hd t = CHR ''#'' \<or> CHR ''='' \<notin> set t then None
      else Some (takeWhile (\<lambda>c. c \<noteq> CHR ''='') t, tl (dropWhile (\<lambda>c. c \<noteq> CHR ''='') t)))"

definition inject :: "string \<Rightarrow> string \<Rightarrow> environ \<Rightarrow> environ" where
  "inject k v env = (case map_of env k of None \<Rightarrow> env @ [(k, v)] | Some _ \<Rightarrow> env)"

fun load_lines :: "string list \<Rightarrow> environ \<Rightarrow> environ" where
  "load_lines [] env = env"
| "load_lines (l # ls) env =
     load_lines ls (case parse_line l of None \<Rightarrow> env | Some (k, v) \<Rightarrow> inject k v env)"

definition load_dotenv :: "string list option \<Rightarrow> environ \<Rightarrow> environ" where
  "load_dotenv file env = (case file of None \<Rightarrow> env | Some ls \<Rightarrow> load_lines ls env)"

section \<open>Server configuration objects\<close>

text \<open>The dictionaries the three connector cells build and pass to \<open>Client\<close>.\<close>

definition config_playwright :: pyval where
  "config_playwright =
     PDict [(''mcpServers'',
       PDict [(''playwright'',
         PDict [(''command'', PStr ''npx''),
                (''args'', PList [PStr ''-y'', PStr ''@playwright/mcp@latest''])])])]"

definition config_playwright_navigate :: pyval where
  "config_playwright_navigate =
     PDict [(''mcpServers'',
       PDict [(''playwright'',
         PDict [(''command'', PStr ''npx''),
                (''args'', PList [PStr ''-y'', PStr ''@playwright/mcp@latest''])])])]"

definition config_brave_websearch :: "environ \<Rightarrow> pyval" where
  "config_brave_websearch env =
     PDict [(''mcpServers'',
       PDict [(''brave_websearch'',
         PDict [(''command'', PStr ''npx''),
                (''args'', PList [PStr ''-y'', PStr ''@modelcontextprotocol/server-brave-search'']),
                (''env'', PDict [(''BRAVE_API_KEY'', os_getenv env ''BRAVE_API_KEY'')])])])]"

fun is_str :: "pyval \<Rightarrow> bool" where
  "is_str (PStr _) = True"
| "is_str _ = False"

fun is_str_list :: "pyval \<Rightarrow> bool" where
  "is_str_list (PList xs) = list_all is_str xs"
| "is_str_list _ = False"

fun is_str_dict :: "pyval \<Rightarrow> bool" where
  "is_str_dict (PDict d) = list_all (\<lambda>kv. is_str (snd kv)) d"
| "is_str_dict _ = False"

text \<open>
  The shape in the words of the specification: the top-level keys are the server names,
  and each is bound to a dictionary with a string \<open>command\<close>, a list of strings \<open>args\<close>
  and a dictionary of strings \<open>env\<close>.
\<close>

fun spec_server_entry :: "pyval \<Rightarrow> bool" where
  "spec_server_entry (PDict d) =
     (case (map_of d ''command'', map_of d ''args'', map_of d ''env'') of
        (Some c, Some a, Some e) \<Rightarrow>
          is_str c \<and> is_str_list a \<and> is_str_dict e
          \<and> set (map fst d) = {''command'', ''args'', ''env''}
      | _ \<Rightarrow> False)"
| "spec_server_entry _ = False"

fun spec_config_shape :: "pyval \<Rightarrow> bool" where
  "spec_config_shape (PDict servers) = list_all (\<lambda>kv. spec_server_entry (snd kv)) servers"
| "spec_config_shape _ = False"

text \<open>
  The shape the cells build: one top-level key \<open>mcpServers\<close>, bound to the dictionary
  whose keys are the server names; \<open>env\<close> is optional in a server's entry.
\<close>

fun server_entry :: "pyval \<Rightarrow> bool" where
  "server_entry (PDict d) =
     (case (map_of d ''command'', map_of d ''args'') of
        (Some c, Some a) \<Rightarrow>
          is_str c \<and> is_str_list a
          \<and> (case map_of d ''env'' of None \<Rightarrow> True | Some e \<Rightarrow> is_str_dict e)
          \<and> set (map fst d) \<subseteq> {''command'', ''args'', ''env''}
      | _ \<Rightarrow> False)"
| "server_entry _ = False"

fun server_names :: "pyval \<Rightarrow> string list" where
  "server_names (PDict [(k, PDict servers)]) = (if k = ''mcpServers'' then map fst servers else [])"
| "server_names _ = []"

fun top_level_keys :: "pyval \<Rightarrow> string list" where
  "top_level_keys (PDict d) = map fst d"
| "top_level_keys _ = []"

fun mcp_config_shape :: "pyval \<Rightarrow> bool" where
  "mcp_config_shape (PDict [(k, PDict servers)]) =
     (k = ''mcpServers'' \<and> list_all (\<lambda>kv. server_entry (snd kv)) servers)"
| "mcp_config_shape _ = False"

section \<open>The tool-listing cells\<close>

text \<open>
  The connector is external. What a cell sees of a client is the outcome of entering
  \<open>async with client\<close> (an exception, or none) and the outcome of \<open>client.list_tools()\<close>.
  \<open>Client\<close>, which builds the client from a configuration, is a parameter of the cells.
\<close>

record client =
  aenter :: "exn option"
  list_tools :: "exn + Tool list"

text \<open>
  \<open>[tool_to_dict(t) for t in mcp_tools]\<close>, returning also the tools the formatter was
  called on; the comprehension stops at the first call that raises.
\<close>

fun tools_to_dicts :: "Tool list \<Rightarrow> Tool list \<times> (exn + (string \<times> pyval) list list)" where
  "tools_to_dicts [] = ([], Inr [])"
| "tools_to_dicts (t # ts) =
     (case tool_to_dict t of
        Inl e \<Rightarrow> ([t], Inl e)
      | Inr d \<Rightarrow>
          (case tools_to_dicts ts of
             (called, Inl e) \<Rightarrow> (t # called, Inl e)
           | (called, Inr ds) \<Rightarrow> (t # called, Inr (d # ds))))"

text \<open>
  \<open>run\<close> of the playwright cell and \<open>run_list\<close> of the brave cell: the rows handed to
  the table display, or the exception that ends the cell, with the formatter's calls.
  Neither has an exception handler.
\<close>

definition run :: "client \<Rightarrow> Tool list \<times> (exn + (string \<times> pyval) list list)" where
  "run c =
     (case aenter c of
        Some e \<Rightarrow> ([], Inl e)
      | None \<Rightarrow>
          (case list_tools c of
             Inl e \<Rightarrow> ([], Inl e)
           | Inr mcp_tools \<Rightarrow> tools_to_dicts mcp_tools))"

definition run_list :: "client \<Rightarrow> Tool list \<times> (exn + (string \<times> pyval) list list)" where
  "run_list c =
     (case aenter c of
        Some e \<Rightarrow> ([], Inl e)
      | None \<Rightarrow>
          (case list_tools c of
             Inl e \<Rightarrow> ([], Inl e)
           | Inr mcp_tools \<Rightarrow> tools_to_dicts mcp_tools))"

definition playwright_list_cell ::
  "(pyval \<Rightarrow> client) \<Rightarrow> Tool list \<times> (exn + (string \<times> pyval) list list)" where
  "playwright_list_cell Client = run (Client config_playwright)"

definition brave_list_cell ::
  "(pyval \<Rightarrow> client) \<Rightarrow> environ \<Rightarrow> Tool list \<times> (exn + (string \<times> pyval) list list)" where
  "brave_list_cell Client env = run_list (Client (config_brave_websearch env))"

text \<open>
  Listing fails with exception \<open>e\<close>: entering the connection raises it, or the
  connection opens and \<open>list_tools\<close> raises it.
\<close>

definition listing_fails :: "client \<Rightarrow> exn \<Rightarrow> bool" where
  "listing_fails c e = (aenter c = Some e \<or> (aenter c = None \<and> list_tools c = Inl e))"

section \<open>Sample inputs\<close>

text \<open>Concrete tools, a client and an environment file on which the results are run.\<close>

definition tool_plain :: Tool where
  "tool_plain =
     \<lparr>name = ''browser_close'', description = PStr ''Close the page'',
      annotations = None, inputSchema = [(''type'', PStr ''object'')]\<rparr>"

definition tool_blank_annotations :: Tool where
  "tool_blank_annotations =
     \<lparr>name = ''browser_snapshot'', description = PNone,
      annotations = Some [(''title'', PNone), (''readOnlyHint'', PNone),
                          (''destructiveHint'', PNone)],
      inputSchema = [(''type'', PStr ''object'')]\<rparr>"

definition tool_search :: Tool where
  "tool_search =
     \<lparr>name = ''search'', description = PStr ''Search the web'',
      annotations = Some [(''title'', PStr ''Search''), (''readOnlyHint'', PBool True),
                          (''destructiveHint'', PBool False)],
      inputSchema =
        [(''type'', PStr ''object''),
         (''properties'',
            PDict [(''url'', PDict [(''type'', PStr ''string'')]),
                   (''count'', PDict [(''type'', PStr ''integer'')])])]\<rparr>"

definition tool_null_properties :: Tool where
  "tool_null_properties =
     \<lparr>name = ''t'', description = PNone, annotations = None,
      inputSchema = [(''properties'', PNone)]\<rparr>"

definition client_unreachable :: "pyval \<Rightarrow> client" where
  "client_unreachable cfg =
     \<lparr>aenter = Some (External ''spawn failed''), list_tools = Inr [tool_plain]\<rparr>"

definition client_reachable :: "pyval \<Rightarrow> client" where
  "client_reachable cfg = \<lparr>aenter = None, list_tools = Inr [tool_plain]\<rparr>"

definition dotenv_lines :: "string list" where
  "dotenv_lines = [''# .env'', [], ''OPENAI_API_KEY=from_file'', ''BRAVE_API_KEY=brave'']"

section \<open>Results on the formatter\<close>

lemma bind_exn_simps:
  "bind_exn (Inl e) f = Inl e"
  "bind_exn (Inr x) f = f x"
  by (simp_all add: bind_exn_def)

lemma annotation_or_None_absent:
  "annotations t = None \<Longrightarrow> annotation_or_None t field = Inr PNone"
  by (simp add: annotation_or_None_def truthy_def)

lemma annotation_or_None_present:
  "annotations t = Some a \<Longrightarrow> annotation_or_None t field = getattr a field"
  by (simp add: annotation_or_None_def truthy_def)

lemma getattr_present: "map_of obj a = Some v \<Longrightarrow> getattr obj a = Inr v"
  by (simp add: getattr_def)

lemma keys_properties_wf:
  "wf_schema s \<Longrightarrow>
   keys (dict_get s ''properties'' (PDict [])) =
     Inr (case map_of s ''properties'' of Some (PDict ps) \<Rightarrow> map fst ps | _ \<Rightarrow> [])"
  by (auto simp: wf_schema_def dict_get_def split: option.splits pyval.splits)

text \<open>On a well-formed tool the formatter returns, and this is the dictionary it returns.\<close>

lemma tool_to_dict_wf:
  assumes "wf_tool t"
  shows "tool_to_dict t =
     Inr [(''name'', PStr (name t)),
          (''title'',
             case annotations t of None \<Rightarrow> PNone | Some a \<Rightarrow> the (map_of a ''title'')),
          (''description'', description t),
          (''readOnly'',
             case annotations t of None \<Rightarrow> PNone | Some a \<Rightarrow> the (map_of a ''readOnlyHint'')),
          (''destructive'',
             case annotations t of None \<Rightarrow> PNone
             | Some a \<Rightarrow> the (map_of a ''destructiveHint'')),
          (''inputs'',
             PList (map PStr (case map_of (inputSchema t) ''properties'' of
                                Some (PDict ps) \<Rightarrow> map fst ps | _ \<Rightarrow> [])))]"
proof -
  from assms have s: "wf_schema (inputSchema t)"
    by (simp add: wf_tool_def)
  show ?thesis
  proof (cases "annotations t")
    case None
    then show ?thesis
      by (simp add: tool_to_dict_def annotation_or_None_absent bind_exn_simps
          keys_properties_wf [OF s])
  next
    case (Some a)
    with assms have "wf_annotations a"
      by (simp add: wf_tool_def)
    then obtain x y z where "map_of a ''title'' = Some x"
      and "map_of a ''readOnlyHint'' = Some y" and "map_of a ''destructiveHint'' = Some z"
      by (auto simp: wf_annotations_def)
    with Some show ?thesis
      by (simp add: tool_to_dict_def annotation_or_None_present getattr_present
          bind_exn_simps keys_properties_wf [OF s])
  qed
qed

text \<open>
  Outside the well-formed tools the formatter can raise: on an annotations object that
  has no \<open>title\<close> attribute at all (no object of the library's type is like that), and
  on an input schema whose \<open>properties\<close> entry is not a mapping.
\<close>

lemma tool_to_dict_attribute_missing:
  "tool_to_dict \<lparr>name = ''t'', description = PNone,
        annotations = Some [(''readOnlyHint'', PBool True)],
        inputSchema = []\<rparr> = Inl AttributeError"
  by (simp add: tool_to_dict_def annotation_or_None_def truthy_def getattr_def bind_exn_def)

lemma tool_to_dict_properties_not_mapping:
  "tool_to_dict \<lparr>name = ''t'', description = PNone, annotations = None,
        inputSchema = [(''properties'', PNone)]\<rparr> = Inl AttributeError"
  by (simp add: tool_to_dict_def annotation_or_None_def truthy_def dict_get_def bind_exn_def)

text \<open>
  C1: the formatter is total over well-formed tool objects: it returns a dictionary with
  the six keys, and an optional field that its source object lacks comes out as \<open>None\<close>.
  In particular, when the annotations object is present and its \<open>title\<close>,
  \<open>readOnlyHint\<close> or \<open>destructiveHint\<close> is not given (the attribute holds \<open>None\<close>),
  the formatter does not fail and the corresponding entry is \<open>None\<close>.
\<close>

theorem tool_to_dict_total:
  assumes "wf_tool t"
  shows "\<exists>d. tool_to_dict t = Inr d
     \<and> map fst d = [''name'', ''title'', ''description'', ''readOnly'', ''destructive'', ''inputs'']
     \<and> map_of d ''description'' = Some (description t)
     \<and> (\<forall>a. annotations t = Some a \<longrightarrow>
          (map_of a ''title'' = Some PNone \<longrightarrow> map_of d ''title'' = Some PNone)
          \<and> (map_of a ''readOnlyHint'' = Some PNone \<longrightarrow> map_of d ''readOnly'' = Some PNone)
          \<and> (map_of a ''destructiveHint'' = Some PNone
               \<longrightarrow> map_of d ''destructive'' = Some PNone))"
  by (simp add: tool_to_dict_wf [OF assms])

theorem tool_to_dict_total_witness:
  "wf_tool tool_blank_annotations
   \<and> (\<exists>d. tool_to_dict tool_blank_annotations = Inr d
        \<and> map_of d ''title'' = Some PNone \<and> map_of d ''readOnly'' = Some PNone
        \<and> map_of d ''destructive'' = Some PNone \<and> map_of d ''description'' = Some PNone)"
proof -
  have wf: "wf_tool tool_blank_annotations"
    by (simp add: wf_tool_def wf_annotations_def wf_schema_def tool_blank_annotations_def)
  have a: "annotations tool_blank_annotations =
      Some [(''title'', PNone), (''readOnlyHint'', PNone), (''destructiveHint'', PNone)]"
    and d: "description tool_blank_annotations = PNone"
    by (simp_all add: tool_blank_annotations_def)
  from tool_to_dict_total [OF wf] obtain r where "tool_to_dict tool_blank_annotations = Inr r"
    and "map_of r ''description'' = Some PNone"
    and "map_of r ''title'' = Some PNone" and "map_of r ''readOnly'' = Some PNone"
    and "map_of r ''destructive'' = Some PNone"
    unfolding a d by auto
  with wf show ?thesis
    by blast
qed

text \<open>
  C5, as stated: for every tool whose annotations are missing (\<open>None\<close>), the formatter
  returns a dictionary with \<open>title\<close>, \<open>readOnly\<close> and \<open>destructive\<close> all \<open>None\<close>.
  It fails on a tool without annotations whose input schema binds \<open>properties\<close> to
  \<open>None\<close>: the formatter raises \<open>AttributeError\<close> and returns no dictionary.
\<close>

theorem tool_to_dict_no_annotations_counterexample:
  "annotations tool_null_properties = None
   \<and> tool_to_dict tool_null_properties = Inl AttributeError"
  by (simp add: tool_to_dict_def annotation_or_None_def truthy_def dict_get_def bind_exn_def
      tool_null_properties_def)

text \<open>
  C5, amended: for every tool whose annotations are missing (\<open>None\<close>) and whose input
  schema has no \<open>properties\<close> entry or binds it to a mapping, the formatter returns a
  dictionary with \<open>title\<close>, \<open>readOnly\<close> and \<open>destructive\<close> all \<open>None\<close>.
\<close>

theorem tool_to_dict_no_annotations:
  assumes "annotations t = None" and "wf_schema (inputSchema t)"
  shows "\<exists>d. tool_to_dict t = Inr d \<and> map_of d ''title'' = Some PNone
     \<and> map_of d ''readOnly'' = Some PNone \<and> map_of d ''destructive'' = Some PNone"
proof -
  from assms have "wf_tool t"
    by (simp add: wf_tool_def)
  from tool_to_dict_wf [OF this] assms(1) show ?thesis
    by simp
qed

theorem tool_to_dict_no_annotations_witness:
  "annotations tool_plain = None \<and> wf_schema (inputSchema tool_plain)
   \<and> (\<exists>d. tool_to_dict tool_plain = Inr d \<and> map_of d ''title'' = Some PNone
        \<and> map_of d ''readOnly'' = Some PNone \<and> map_of d ''destructive'' = Some PNone)"
proof -
  have a: "annotations tool_plain = None"
    by (simp add: tool_plain_def)
  have s: "wf_schema (inputSchema tool_plain)"
    by (simp add: tool_plain_def wf_schema_def)
  from tool_to_dict_no_annotations [OF a s] a s show ?thesis
    by blast
qed

text \<open>
  C6: for a tool whose input schema has no \<open>properties\<close> key, the \<open>inputs\<close> entry of
  the formatter's result is the empty list.
\<close>

theorem tool_to_dict_no_properties:
  assumes "map_of (inputSchema t) ''properties'' = None" and "wf_tool t"
  shows "\<exists>d. tool_to_dict t = Inr d \<and> map_of d ''inputs'' = Some (PList [])"
  using tool_to_dict_wf [OF assms(2)] assms(1) by simp

theorem tool_to_dict_no_properties_witness:
  "map_of (inputSchema tool_plain) ''properties'' = None \<and> wf_tool tool_plain
   \<and> (\<exists>d. tool_to_dict tool_plain = Inr d \<and> map_of d ''inputs'' = Some (PList []))"
proof -
  have p: "map_of (inputSchema tool_plain) ''properties'' = None"
    by (simp add: tool_plain_def)
  have wf: "wf_tool tool_plain"
    by (simp add: tool_plain_def wf_tool_def wf_schema_def)
  from tool_to_dict_no_properties [OF p wf] p wf show ?thesis
    by blast
qed

text \<open>
  C7: for a tool whose input schema has a \<open>properties\<close> mapping, the \<open>inputs\<close> entry
  is the list of that mapping's keys in the order the schema declares them; for
  properties \<open>url\<close> then \<open>count\<close> it is \<open>["url", "count"]\<close>.
\<close>

theorem tool_to_dict_inputs_order:
  assumes "map_of (inputSchema t) ''properties'' = Some (PDict props)" and "wf_tool t"
  shows "\<exists>d. tool_to_dict t = Inr d
     \<and> map_of d ''inputs'' = Some (PList (map PStr (map fst props)))"
  using tool_to_dict_wf [OF assms(2)] assms(1) by simp

theorem tool_to_dict_inputs_order_witness:
  "wf_tool tool_search
   \<and> (\<exists>d. tool_to_dict tool_search = Inr d
        \<and> map_of d ''inputs'' = Some (PList [PStr ''url'', PStr ''count'']))"
proof -
  have p: "map_of (inputSchema tool_search) ''properties'' =
      Some (PDict [(''url'', PDict [(''type'', PStr ''string'')]),
                   (''count'', PDict [(''type'', PStr ''integer'')])])"
    by (simp add: tool_search_def)
  have wf: "wf_tool tool_search"
    by (simp add: tool_search_def wf_tool_def wf_schema_def wf_annotations_def)
  from tool_to_dict_inputs_order [OF p wf] wf show ?thesis
    by simp
qed

section \<open>Results on the quiet agent wrapper\<close>

lemma map_of_update:
  "map_of (AList.update k v al) k' = (if k' = k then Some v else map_of al k')"
  by (simp add: AList.update_conv')

text \<open>The two assignments that follow the base constructor's call.\<close>

lemma exec_tail:
  "exec_stmts base self [Assign_args_Namespace, Assign_args_quiet True] h1 =
     (if self \<le> length h1
      then Inr (store_attr (length h1) ''quiet'' (ABool True)
                 (store_attr self ''args'' (ARef (length h1)) (h1 @ [[]])))
      else Inl AttributeError)"
  by (simp add: alloc_def store_attr_def load_attr_def getattr_def map_of_update)

lemma NotebookAgent_init_unfold:
  "NotebookAgent_init base self h =
     (case base ''NotebookAgent'' self h of
        Inl e \<Rightarrow> Inl e
      | Inr h1 \<Rightarrow>
          if self \<le> length h1
          then Inr (store_attr (length h1) ''quiet'' (ABool True)
                     (store_attr self ''args'' (ARef (length h1)) (h1 @ [[]])))
          else Inl AttributeError)"
proof -
  have "exec_stmts base self (Super_init ''NotebookAgent'' # rest) h =
      (case base ''NotebookAgent'' self h of
         Inl e \<Rightarrow> Inl e
       | Inr h1 \<Rightarrow> exec_stmts base self rest h1)" for rest
    by simp
  then show ?thesis
    unfolding NotebookAgent_init_def NotebookAgent_init_body_def
    by (simp only: exec_tail)
qed

lemma quiet_after_tail:
  assumes "self \<le> length h1"
  shows "quiet_flag (store_attr (length h1) ''quiet'' (ABool True)
                 (store_attr self ''args'' (ARef (length h1)) (h1 @ [[]]))) self"
  using assms
  by (simp add: quiet_flag_def store_attr_def load_attr_def getattr_def map_of_update
      nth_list_update nth_append)

lemma NotebookAgent_init_quiet:
  assumes "NotebookAgent_init base self h = Inr h'"
  shows "quiet_flag h' self"
  using assms quiet_after_tail
  by (auto simp: NotebookAgent_init_unfold split: sum.splits if_splits)

lemma NotebookAgent_unfold:
  "NotebookAgent base call_args h =
     (if call_args \<noteq> [] then Inl TypeError
      else case NotebookAgent_init base (length h) (h @ [[]]) of
             Inl e \<Rightarrow> Inl e
           | Inr h' \<Rightarrow> Inr (length h, h'))"
  by (simp add: NotebookAgent_def alloc_def)

text \<open>A newly allocated instance has no attribute, so its quiet flag is not true.\<close>

lemma fresh_instance_not_quiet: "\<not> quiet_flag (h @ [[]]) (length h)"
  by (simp add: quiet_flag_def load_attr_def getattr_def)

text \<open>The first statement executed is the base constructor's call, on the store as given.\<close>

lemma trace_head:
  "\<exists>rest. trace base self NotebookAgent_init_body h = (Super_init ''NotebookAgent'', h) # rest
     \<and> list_all (\<lambda>sh. \<not> is_Super_init (fst sh)) rest"
  by (simp add: NotebookAgent_init_body_def split: sum.splits)

text \<open>Construction with the stand-in base constructor, from the empty store.\<close>

lemma NotebookAgent_demo:
  "NotebookAgent demo_base [] [] =
     Inr (0, [[(''name'', AStr ''NotebookAgent''), (''args'', ARef 2)],
              [(''quiet'', ABool False), (''model'', AStr ''gpt-4o'')],
              [(''quiet'', ABool True)]])"
  by (simp add: NotebookAgent_unfold NotebookAgent_init_unfold demo_base_def alloc_def
      store_attr_def)

lemma demo_base_run:
  "demo_base ''NotebookAgent'' 0 [[]] =
     Inr [[(''name'', AStr ''NotebookAgent''), (''args'', ARef 1)],
          [(''quiet'', ABool False), (''model'', AStr ''gpt-4o'')]]"
  by (simp add: demo_base_def alloc_def store_attr_def)

text \<open>
  C2, as stated: the quiet flag is true before any behaviour of the base constructor.
  It fails: constructing from the empty store, the base constructor is called on the
  new instance \<open>0\<close>, which has no attribute yet.
\<close>

theorem quiet_before_base_counterexample:
  "\<not> quiet_before_base demo_base 0 [[]]"
  by (simp add: quiet_before_base_def NotebookAgent_init_body_def quiet_flag_def
      load_attr_def getattr_def)

text \<open>
  C2, amended: on construction the base constructor runs first and only once, on the
  newly allocated instance, whose quiet flag is not yet true; the quiet flag is set
  afterwards, so that it is true when construction completes.
\<close>

theorem NotebookAgent_base_runs_first:
  "(\<exists>rest. trace base (length h) NotebookAgent_init_body (h @ [[]]) =
            (Super_init ''NotebookAgent'', h @ [[]]) # rest
          \<and> list_all (\<lambda>sh. \<not> is_Super_init (fst sh)) rest)
   \<and> \<not> quiet_flag (h @ [[]]) (length h)
   \<and> (\<forall>h'. NotebookAgent base [] h = Inr (length h, h') \<longrightarrow> quiet_flag h' (length h))"
proof -
  have "quiet_flag h' (length h)" if "NotebookAgent base [] h = Inr (length h, h')" for h'
    using that NotebookAgent_init_quiet [of base "length h" "h @ [[]]" h']
    by (simp add: NotebookAgent_unfold split: sum.splits)
  with trace_head [of base "length h" "h @ [[]]"] fresh_instance_not_quiet [of h]
  show ?thesis
    by blast
qed

theorem NotebookAgent_base_runs_first_witness:
  "hd (trace demo_base 0 NotebookAgent_init_body [[]]) = (Super_init ''NotebookAgent'', [[]])
   \<and> \<not> quiet_flag [[]] 0
   \<and> NotebookAgent demo_base [] [] =
       Inr (0, [[(''name'', AStr ''NotebookAgent''), (''args'', ARef 2)],
                [(''quiet'', ABool False), (''model'', AStr ''gpt-4o'')],
                [(''quiet'', ABool True)]])
   \<and> quiet_flag [[(''name'', AStr ''NotebookAgent''), (''args'', ARef 2)],
                 [(''quiet'', ABool False), (''model'', AStr ''gpt-4o'')],
                 [(''quiet'', ABool True)]] 0"
  using NotebookAgent_base_runs_first [of demo_base "[]"] NotebookAgent_demo
  by auto

text \<open>
  C4: whenever the call \<open>NotebookAgent(...)\<close> returns an instance, whatever the base
  constructor did and whatever arguments the call was given, \<open>self.args.quiet\<close> of that
  instance is \<open>True\<close>.
\<close>

theorem NotebookAgent_quiet:
  assumes "NotebookAgent base call_args h = Inr (self, h')"
  shows "quiet_flag h' self"
  using assms NotebookAgent_init_quiet
  by (auto simp: NotebookAgent_unfold split: if_splits sum.splits)

theorem NotebookAgent_quiet_witness:
  "NotebookAgent demo_base [] [] =
     Inr (0, [[(''name'', AStr ''NotebookAgent''), (''args'', ARef 2)],
              [(''quiet'', ABool False), (''model'', AStr ''gpt-4o'')],
              [(''quiet'', ABool True)]])
   \<and> quiet_flag [[(''name'', AStr ''NotebookAgent''), (''args'', ARef 2)],
                 [(''quiet'', ABool False), (''model'', AStr ''gpt-4o'')],
                 [(''quiet'', ABool True)]] 0"
  using NotebookAgent_quiet [OF NotebookAgent_demo] NotebookAgent_demo
  by simp

text \<open>
  C10: the constructor replaces the argument namespace wholesale. When the base
  constructor returns (leaving the instance in the store), construction succeeds and
  \<open>self.args\<close> refers to an object that did not exist in the store the base constructor
  left, whose only attribute is \<open>quiet\<close>, set to \<open>True\<close>. Every object of that store
  other than the instance is unchanged, and so is every attribute of the instance other
  than \<open>args\<close>: whatever the base constructor stored in its own namespace is no longer
  reachable through \<open>self.args\<close>.
\<close>

theorem NotebookAgent_args_replaced:
  assumes "base ''NotebookAgent'' (length h) (h @ [[]]) = Inr h1"
    and "length h < length h1"
  shows "\<exists>h'. NotebookAgent base [] h = Inr (length h, h')
     \<and> length h' = Suc (length h1)
     \<and> load_attr h' (length h) ''args'' = Inr (ARef (length h1))
     \<and> h' ! length h1 = [(''quiet'', ABool True)]
     \<and> (\<forall>a < length h1. a \<noteq> length h \<longrightarrow> h' ! a = h1 ! a)
     \<and> (\<forall>k. k \<noteq> ''args'' \<longrightarrow> map_of (h' ! length h) k = map_of (h1 ! length h) k)"
  using assms
  by (simp add: NotebookAgent_unfold NotebookAgent_init_unfold store_attr_def load_attr_def
      getattr_def map_of_update nth_list_update nth_append)

theorem NotebookAgent_args_replaced_witness:
  "\<exists>h'. NotebookAgent demo_base [] [] = Inr (0, h')
     \<and> load_attr h' 0 ''args'' = Inr (ARef 2)
     \<and> h' ! 2 = [(''quiet'', ABool True)]
     \<and> h' ! 1 = [(''quiet'', ABool False), (''model'', AStr ''gpt-4o'')]
     \<and> map_of (h' ! 0) ''name'' = Some (AStr ''NotebookAgent'')"
proof -
  have b: "demo_base ''NotebookAgent'' (length ([]::heap)) ([] @ [[]]) =
      Inr [[(''name'', AStr ''NotebookAgent''), (''args'', ARef 1)],
           [(''quiet'', ABool False), (''model'', AStr ''gpt-4o'')]]"
    using demo_base_run by simp
  have l: "length ([]::heap) <
      length [[(''name'', AStr ''NotebookAgent''), (''args'', ARef 1)],
              [(''quiet'', ABool False), (''model'', AStr ''gpt-4o'')]]"
    by simp
  from NotebookAgent_args_replaced [of demo_base "[]"
      "[[(''name'', AStr ''NotebookAgent''), (''args'', ARef 1)],
        [(''quiet'', ABool False), (''model'', AStr ''gpt-4o'')]]"] b l
  show ?thesis
    by (auto simp: numeral_2_eq_2)
qed

section \<open>Results on the credential loader\<close>


lemma inject_keeps:
  "map_of env k = Some v \<Longrightarrow> map_of (inject k' v' env) k = Some v"
  by (simp add: inject_def split: option.splits)

lemma inject_extends:
  "\<exists>added. inject k v env = env @ added
     \<and> list_all (\<lambda>kv. map_of env (fst kv) = None) added"
  by (simp add: inject_def split: option.splits)

lemma absent_in_prefix:
  "map_of (env @ added) k = None \<Longrightarrow> map_of env k = None"
  by (auto simp: map_of_eq_None_iff)


lemma load_lines_keeps:
  "map_of env k = Some v \<Longrightarrow> map_of (load_lines ls env) k = Some v"
proof (induction ls arbitrary: env)
  case Nil
  then show ?case by simp
next
  case (Cons l ls)
  show ?case
  proof (cases "parse_line l")
    case None
    with Cons show ?thesis by simp
  next
    case (Some kv)
    obtain k' v' where kv: "kv = (k', v')" by (cases kv)
    from Cons.prems have "map_of (inject k' v' env) k = Some v"
      by (rule inject_keeps)
    from Cons.IH [OF this] Some kv show ?thesis by simp
  qed
qed


lemma load_lines_extends:
  "\<exists>added. load_lines ls env = env @ added
     \<and> list_all (\<lambda>kv. map_of env (fst kv) = None) added"
proof (induction ls arbitrary: env)
  case Nil
  then show ?case by simp
next
  case (Cons l ls)
  define env' where "env' = (case parse_line l of None \<Rightarrow> env | Some (k, v) \<Rightarrow> inject k v env)"
  have "\<exists>a1. env' = env @ a1 \<and> list_all (\<lambda>kv. map_of env (fst kv) = None) a1"
  proof (cases "parse_line l")
    case None
    then show ?thesis by (simp add: env'_def)
  next
    case (Some kv)
    obtain k v where "kv = (k, v)" by (cases kv)
    with Some have "env' = inject k v env" by (simp add: env'_def)
    with inject_extends [of k v env] show ?thesis by simp
  qed
  then obtain a1 where a1: "env' = env @ a1"
    and n1: "list_all (\<lambda>kv. map_of env (fst kv) = None) a1"
    by blast
  from Cons.IH [of env'] obtain a2 where a2: "load_lines ls env' = env' @ a2"
    and n2: "list_all (\<lambda>kv. map_of env' (fst kv) = None) a2"
    by blast
  have "map_of env (fst kv) = None" if "kv \<in> set a2" for kv
  proof -
    from n2 that have "map_of (env @ a1) (fst kv) = None"
      unfolding a1 list_all_iff by blast
    then show ?thesis by (rule absent_in_prefix)
  qed
  then have "list_all (\<lambda>kv. map_of env (fst kv) = None) a2"
    unfolding list_all_iff by blast
  with n1 have "list_all (\<lambda>kv. map_of env (fst kv) = None) (a1 @ a2)"
    by simp
  moreover have "load_lines (l # ls) env = env @ (a1 @ a2)"
    using a1 a2 by (simp add: env'_def)
  ultimately show ?case
    by blast
qed


text \<open>
  C8: loading the environment file is additive. A variable that is set before the load
  has the same value after it, also when the file defines it; the environment after the
  load is the one before, followed by pairs whose keys were not set.
\<close>

theorem load_dotenv_additive:
  "(map_of env k = Some v \<longrightarrow> map_of (load_dotenv dotenv env) k = Some v)
   \<and> (\<exists>added. load_dotenv dotenv env = env @ added
        \<and> list_all (\<lambda>kv. map_of env (fst kv) = None) added)"
proof (cases dotenv)
  case None
  then show ?thesis by (simp add: load_dotenv_def)
next
  case (Some ls)
  with load_lines_keeps [of env k v ls] load_lines_extends [of ls env] show ?thesis
    by (simp add: load_dotenv_def)
qed

lemma load_dotenv_sample:
  "load_dotenv (Some dotenv_lines) [(''OPENAI_API_KEY'', ''from_shell'')] =
       [(''OPENAI_API_KEY'', ''from_shell''), (''BRAVE_API_KEY'', ''brave'')]"
  by code_simp


theorem load_dotenv_additive_witness:
  "map_of [(''OPENAI_API_KEY'', ''from_shell'')] ''OPENAI_API_KEY'' = Some ''from_shell''
   \<and> parse_line ''OPENAI_API_KEY=from_file'' = Some (''OPENAI_API_KEY'', ''from_file'')
   \<and> map_of (load_dotenv (Some dotenv_lines) [(''OPENAI_API_KEY'', ''from_shell'')])
         ''OPENAI_API_KEY'' = Some ''from_shell''
   \<and> load_dotenv (Some dotenv_lines) [(''OPENAI_API_KEY'', ''from_shell'')] =
       [(''OPENAI_API_KEY'', ''from_shell'')] @ [(''BRAVE_API_KEY'', ''brave'')]"
proof -
  have pre: "map_of [(''OPENAI_API_KEY'', ''from_shell'')] ''OPENAI_API_KEY'' = Some ''from_shell''"
    by simp
  from load_dotenv_additive [of "[(''OPENAI_API_KEY'', ''from_shell'')]" "''OPENAI_API_KEY''"
      "''from_shell''" "Some dotenv_lines"] pre
  have "map_of (load_dotenv (Some dotenv_lines) [(''OPENAI_API_KEY'', ''from_shell'')])
         ''OPENAI_API_KEY'' = Some ''from_shell''"
    by blast
  moreover have "parse_line ''OPENAI_API_KEY=from_file'' = Some (''OPENAI_API_KEY'', ''from_file'')"
    by code_simp
  ultimately show ?thesis
    using pre load_dotenv_sample by simp
qed

section \<open>Results on the server configuration objects\<close>

text \<open>
  C3, as stated: the top-level keys of a configuration are the server names, each bound
  to a dictionary with \<open>command\<close>, \<open>args\<close> and \<open>env\<close>. It fails on the playwright
  configuration: its only top-level key is \<open>mcpServers\<close>, and the server name
  \<open>playwright\<close> is one level below.
\<close>

theorem config_shape_counterexample:
  "\<not> spec_config_shape config_playwright
   \<and> top_level_keys config_playwright = [''mcpServers'']
   \<and> server_names config_playwright = [''playwright'']"
  by (simp add: config_playwright_def)

text \<open>
  C3, amended: every configuration the cells pass to the connector has one top-level key,
  \<open>mcpServers\<close>, bound to a dictionary whose keys are the server names; each server is
  bound to a dictionary with a string \<open>command\<close>, a list of strings \<open>args\<close> and, in the
  brave cell only, \<open>env\<close>, which maps \<open>BRAVE_API_KEY\<close> to the string read from the
  process environment when the variable is set there.
\<close>

theorem driver_configs_shape:
  "mcp_config_shape config_playwright
   \<and> server_names config_playwright = [''playwright'']
   \<and> mcp_config_shape config_playwright_navigate
   \<and> server_names config_playwright_navigate = [''playwright'']
   \<and> server_names (config_brave_websearch env) = [''brave_websearch'']
   \<and> (map_of env ''BRAVE_API_KEY'' = Some key \<longrightarrow>
        mcp_config_shape (config_brave_websearch env)
        \<and> config_brave_websearch env =
            PDict [(''mcpServers'',
              PDict [(''brave_websearch'',
                PDict [(''command'', PStr ''npx''),
                       (''args'',
                          PList [PStr ''-y'', PStr ''@modelcontextprotocol/server-brave-search'']),
                       (''env'', PDict [(''BRAVE_API_KEY'', PStr key)])])])])"
  by (simp add: config_playwright_def config_playwright_navigate_def
      config_brave_websearch_def os_getenv_def)

theorem driver_configs_shape_witness:
  "map_of [(''BRAVE_API_KEY'', ''brave'')] ''BRAVE_API_KEY'' = Some ''brave''
   \<and> mcp_config_shape (config_brave_websearch [(''BRAVE_API_KEY'', ''brave'')])
   \<and> mcp_config_shape config_playwright"
  using driver_configs_shape [of "[(''BRAVE_API_KEY'', ''brave'')]" "''brave''"]
  by simp

section \<open>Results on the tool-listing cells\<close>

lemma run_fails:
  "listing_fails c e \<Longrightarrow> run c = ([], Inl e)"
  by (auto simp: listing_fails_def run_def)

lemma run_list_fails:
  "listing_fails c e \<Longrightarrow> run_list c = ([], Inl e)"
  by (auto simp: listing_fails_def run_list_def)

text \<open>The formatter is called on a prefix of the listed tools, in order.\<close>

lemma tools_to_dicts_called:
  "\<exists>n. fst (tools_to_dicts ts) = take n ts"
proof (induction ts)
  case Nil
  then show ?case by simp
next
  case (Cons t ts)
  then obtain n where n: "fst (tools_to_dicts ts) = take n ts"
    by blast
  show ?case
  proof (cases "tool_to_dict t")
    case (Inl e)
    then have "fst (tools_to_dicts (t # ts)) = take 1 (t # ts)"
      by simp
    then show ?thesis
      by blast
  next
    case (Inr d)
    with n have "fst (tools_to_dicts (t # ts)) = take (Suc n) (t # ts)"
      by (cases "tools_to_dicts ts") (simp split: sum.splits)
    then show ?thesis
      by blast
  qed
qed

text \<open>
  C9: when listing tools fails (the connection cannot be opened, or \<open>list_tools\<close>
  raises), the cell ends with the very exception the connector raised and the formatter
  is not called at all, in the playwright cell and in the brave cell alike. When the
  formatter is called, it is on tools that a successful \<open>list_tools\<close> returned.
\<close>

theorem listing_failure_propagates:
  "(listing_fails (Client config_playwright) e \<longrightarrow>
      playwright_list_cell Client = ([], Inl e))
   \<and> (listing_fails (Client (config_brave_websearch env)) e \<longrightarrow>
      brave_list_cell Client env = ([], Inl e))
   \<and> (fst (playwright_list_cell Client) \<noteq> [] \<longrightarrow>
        (\<exists>tools n. aenter (Client config_playwright) = None
           \<and> list_tools (Client config_playwright) = Inr tools
           \<and> fst (playwright_list_cell Client) = take n tools))
   \<and> (fst (brave_list_cell Client env) \<noteq> [] \<longrightarrow>
        (\<exists>tools n. aenter (Client (config_brave_websearch env)) = None
           \<and> list_tools (Client (config_brave_websearch env)) = Inr tools
           \<and> fst (brave_list_cell Client env) = take n tools))"
proof -
  have called: "fst (run c) \<noteq> [] \<longrightarrow>
      (\<exists>tools n. aenter c = None \<and> list_tools c = Inr tools \<and> fst (run c) = take n tools)"
    for c
    using tools_to_dicts_called
    by (cases "aenter c"; cases "list_tools c") (simp_all add: run_def)
  have called_list: "fst (run_list c) \<noteq> [] \<longrightarrow>
      (\<exists>tools n. aenter c = None \<and> list_tools c = Inr tools
         \<and> fst (run_list c) = take n tools)"
    for c
    using tools_to_dicts_called
    by (cases "aenter c"; cases "list_tools c") (simp_all add: run_list_def)
  show ?thesis
    unfolding playwright_list_cell_def brave_list_cell_def
    using run_fails run_list_fails called called_list
    by blast
qed

lemma tools_to_dicts_sample:
  "tools_to_dicts [tool_plain] =
     ([tool_plain],
      Inr [[(''name'', PStr ''browser_close''), (''title'', PNone),
            (''description'', PStr ''Close the page''), (''readOnly'', PNone),
            (''destructive'', PNone), (''inputs'', PList [])]])"
  by (simp add: tool_to_dict_def annotation_or_None_def truthy_def bind_exn_def dict_get_def
      tool_plain_def)

theorem listing_failure_propagates_witness:
  "listing_fails (client_unreachable config_playwright) (External ''spawn failed'')
   \<and> playwright_list_cell client_unreachable = ([], Inl (External ''spawn failed''))
   \<and> brave_list_cell client_unreachable [] = ([], Inl (External ''spawn failed''))
   \<and> fst (playwright_list_cell client_reachable) = [tool_plain]
   \<and> list_tools (client_reachable config_playwright) = Inr [tool_plain]"
proof -
  have f: "listing_fails (client_unreachable cfg) (External ''spawn failed'')" for cfg
    by (simp add: listing_fails_def client_unreachable_def)
  have r: "fst (playwright_list_cell client_reachable) = [tool_plain]"
    by (simp add: playwright_list_cell_def run_def client_reachable_def tools_to_dicts_sample
        del: tools_to_dicts.simps)
  have l: "list_tools (client_reachable config_playwright) = Inr [tool_plain]"
    by (simp add: client_reachable_def)
  from listing_failure_propagates [of client_unreachable "External ''spawn failed''" "[]"] f r l
  show ?thesis
    by blast
qed

end
